theory Spec2Isabelle
  imports Main "HOL-Library.Sublist"
begin

section \<open>The gRPC handler layer of frontend/server/handler.h\<close>

text \<open>
  The header defines the stream wrapper \<open>ServerStream\<close>, the handler base class
  \<open>GRPCHandlerBase\<close> with its two final subclasses \<open>UnaryGRPCHandler\<close> and
  \<open>ServerStreamingGRPCHandler\<close>, and declares the registration class
  \<open>HandlerRegisterer\<close> and the lookup function \<open>GetHandler\<close>.

  Effects are made explicit. Every \<open>LOG(INFO)\<close> statement that runs yields one record
  (a string); a function of the model returns the list of the records it emitted, in
  emission order. The process state that \<open>config::should_log_requests()\<close> reads is
  passed in, and returned by whatever can change it (the user-defined handler function).
\<close>

subsection \<open>External collaborators\<close>

text \<open>
  \<open>absl::Status\<close> (absl/status/status.h, a library outside the repository): a status
  code and a message; \<open>ok()\<close> holds for the code \<open>kOk\<close> alone, and \<open>ToString()\<close>
  renders \<open>OK\<close>, or the name of the code, a colon, a space and the message.
\<close>

datatype StatusCode =
    kOk | kCancelled | kUnknown | kInvalidArgument | kDeadlineExceeded | kNotFound
  | kAlreadyExists | kPermissionDenied | kResourceExhausted | kFailedPrecondition
  | kAborted | kOutOfRange | kUnimplemented | kInternal | kUnavailable | kDataLoss
  | kUnauthenticated

datatype Status = Status (code: StatusCode) (message: string)

definition ok :: "Status \<Rightarrow> bool" where
  "ok s = (code s = kOk)"

fun StatusCodeToString :: "StatusCode \<Rightarrow> string" where
  "StatusCodeToString kOk = ''OK''"
| "StatusCodeToString kCancelled = ''CANCELLED''"
| "StatusCodeToString kUnknown = ''UNKNOWN''"
| "StatusCodeToString kInvalidArgument = ''INVALID_ARGUMENT''"
| "StatusCodeToString kDeadlineExceeded = ''DEADLINE_EXCEEDED''"
| "StatusCodeToString kNotFound = ''NOT_FOUND''"
| "StatusCodeToString kAlreadyExists = ''ALREADY_EXISTS''"
| "StatusCodeToString kPermissionDenied = ''PERMISSION_DENIED''"
| "StatusCodeToString kResourceExhausted = ''RESOURCE_EXHAUSTED''"
| "StatusCodeToString kFailedPrecondition = ''FAILED_PRECONDITION''"
| "StatusCodeToString kAborted = ''ABORTED''"
| "StatusCodeToString kOutOfRange = ''OUT_OF_RANGE''"
| "StatusCodeToString kUnimplemented = ''UNIMPLEMENTED''"
| "StatusCodeToString kInternal = ''INTERNAL''"
| "StatusCodeToString kUnavailable = ''UNAVAILABLE''"
| "StatusCodeToString kDataLoss = ''DATA_LOSS''"
| "StatusCodeToString kUnauthenticated = ''UNAUTHENTICATED''"

definition ToString :: "Status \<Rightarrow> string" where
  "ToString s =
     (if ok s then ''OK'' else StatusCodeToString (code s) @ '': '' @ message s)"

text \<open>
  Modelled from the spec: \<open>config::should_log_requests()\<close> of common/config.h, which is
  not among the sources. The spec describes it as a single boolean predicate, "is
  verbose request/response logging enabled", consulted before each log emission. It
  reads process-wide state: a record with the flag, extensible by whatever else
  the process holds.
\<close>

record config =
  log_requests :: bool

definition should_log_requests :: "'e config_scheme \<Rightarrow> bool" where
  "should_log_requests env = log_requests env"

text \<open>
  \<open>grpc::ServerWriterInterface<T>\<close> (grpcpp, outside the repository) is an abstract
  class; \<open>Write\<close> is virtual and returns \<open>bool\<close>, false when the write failed. An
  object of a class implementing it is its implementation of \<open>Write\<close> together with
  its current state.
\<close>

record ('msg, 's) ServerWriterInterface =
  Write_impl :: "'msg \<Rightarrow> 's \<Rightarrow> bool \<times> 's"
  wstate :: 's

definition Write ::
  "('msg, 's) ServerWriterInterface \<Rightarrow> 'msg \<Rightarrow> bool \<times> ('msg, 's) ServerWriterInterface"
where
  "Write w msg =
     (case Write_impl w msg (wstate w) of (written, s') \<Rightarrow> (written, w\<lparr>wstate := s'\<rparr>))"

subsection \<open>ServerStream\<close>

text \<open>
  The C++ members \<open>writer_\<close>, \<open>service_name_\<close>, \<open>method_name_\<close> and \<open>fn_\<close> are the
  fields \<open>writer_f\<close>, \<open>service_name_f\<close>, \<open>method_name_f\<close> and \<open>fn_f\<close> (an Isabelle
  name cannot end in an underscore). \<open>DebugString\<close>, the method every message type
  has, is passed as a function.
\<close>

record ('msg, 's) ServerStream =
  writer_f :: "('msg, 's) ServerWriterInterface"

definition ServerStream :: "('msg, 's) ServerWriterInterface \<Rightarrow> ('msg, 's) ServerStream" where
  "ServerStream writer = \<lparr>writer_f = writer\<rparr>"

text \<open>
  \<open>Send\<close> is declared \<open>void\<close>: the first component of the result is the unit value.
  The second is the stream after the call, the third the records logged. The value
  that \<open>Write\<close> returns is bound to \<open>written\<close> and used nowhere, as in the source.
\<close>

definition Send ::
  "('msg \<Rightarrow> string) \<Rightarrow> ('msg, 's) ServerStream \<Rightarrow> 'msg \<Rightarrow> 'e config_scheme
     \<Rightarrow> unit \<times> ('msg, 's) ServerStream \<times> string list"
where
  "Send DebugString stream msg env =
     (let records = (if should_log_requests env
                     then [''Sending streaming response:\<newline>'' @ DebugString msg]
                     else [])
      in case Write (writer_f stream) msg of
           (written, writer') \<Rightarrow> ((), stream\<lparr>writer_f := writer'\<rparr>, records))"

subsection \<open>GRPCHandlerBase\<close>

record GRPCHandlerBase =
  service_name_f :: string
  method_name_f :: string

definition GRPCHandlerBase :: "string \<Rightarrow> string \<Rightarrow> GRPCHandlerBase" where
  "GRPCHandlerBase sname mname =
     \<lparr>service_name_f = sname, method_name_f = mname\<rparr>"

definition service_name :: "'a GRPCHandlerBase_scheme \<Rightarrow> string" where
  "service_name h = service_name_f h"

definition method_name :: "'a GRPCHandlerBase_scheme \<Rightarrow> string" where
  "method_name h = method_name_f h"

subsection \<open>UnaryGRPCHandler\<close>

text \<open>
  The user-defined handler function of a unary method receives the context, the
  request (a pointer to const: it cannot write it) and the response container; it
  returns a status, and may have written the response container and changed the
  process state.
\<close>

type_synonym ('ctx, 'req, 'resp, 'env) UnaryHandlerFn =
  "'ctx \<Rightarrow> 'req \<Rightarrow> 'resp \<Rightarrow> 'env \<Rightarrow> Status \<times> 'resp \<times> 'env"

record ('ctx, 'req, 'resp, 'env) UnaryGRPCHandler = GRPCHandlerBase +
  fn_f :: "('ctx, 'req, 'resp, 'env) UnaryHandlerFn"

text \<open>
  The constructor initialises the base class with the two names and then the member
  \<open>fn_\<close>: the record of the base class, extended by the field of the subclass.
\<close>

definition UnaryGRPCHandler ::
  "string \<Rightarrow> string \<Rightarrow> ('ctx, 'req, 'resp, 'env) UnaryHandlerFn
     \<Rightarrow> ('ctx, 'req, 'resp, 'env) UnaryGRPCHandler"
where
  "UnaryGRPCHandler sname mname fn =
     GRPCHandlerBase.extend (GRPCHandlerBase sname mname)
       (UnaryGRPCHandler.fields fn)"

text \<open>
  What a call of \<open>Run\<close> leaves behind: the status returned, the objects behind the
  request pointer and behind the third pointer (the response container of a unary
  call, the writer of a streaming call), the process state, and the records logged
  by the call.
\<close>

record ('req, 'out, 'env) RunResult =
  returned :: Status
  request_obj :: 'req
  out_obj :: 'out
  env_obj :: 'env
  logged :: "string list"

definition UnaryGRPCHandler_Run ::
  "('req \<Rightarrow> string) \<Rightarrow> ('resp \<Rightarrow> string)
     \<Rightarrow> ('ctx, 'req, 'resp, 'e config_scheme) UnaryGRPCHandler
     \<Rightarrow> 'ctx \<Rightarrow> 'req \<Rightarrow> 'resp \<Rightarrow> 'e config_scheme
     \<Rightarrow> ('req, 'resp, 'e config_scheme) RunResult"
where
  "UnaryGRPCHandler_Run RequestDebugString ResponseDebugString h ctx request response env =
     (let log1 = (if should_log_requests env
                  then [''Request['' @ service_name h @ ''.'' @ method_name h @ '']\<newline>''
                          @ RequestDebugString request]
                  else [])
      in case UnaryGRPCHandler.fn_f h ctx request response env of
           (status, response', env') \<Rightarrow>
             (let log2 = (if should_log_requests env'
                          then [''Response['' @ service_name h @ ''.'' @ method_name h
                                  @ '']\<newline>''
                                  @ ResponseDebugString response' @ ''\<newline>''
                                  @ (if ok status then ''OK''
                                     else ''Error: '' @ ToString status)]
                          else [])
              in \<lparr>returned = status, request_obj = request, out_obj = response',
                  env_obj = env', logged = log1 @ log2\<rparr>))"

subsection \<open>ServerStreamingGRPCHandler\<close>

text \<open>
  The user-defined handler function of a server streaming method receives the
  context, the request and a pointer to the \<open>ServerStream\<close>. All it can do with the
  stream is call \<open>Send\<close>, which returns nothing. One call of the function is
  therefore a finite course of actions: return a status, call \<open>Send\<close> with a message
  and go on, change the process state and go on, or go on depending on the process
  state.
\<close>

datatype ('resp, 'env) StreamingBody =
    Return Status
  | CallSend 'resp "('resp, 'env) StreamingBody"
  | Effect "'env \<Rightarrow> 'env" "('resp, 'env) StreamingBody"
  | Read "'env \<Rightarrow> ('resp, 'env) StreamingBody"

type_synonym ('ctx, 'req, 'resp, 'env) StreamingHandlerFn =
  "'ctx \<Rightarrow> 'req \<Rightarrow> ('resp, 'env) StreamingBody"

text \<open>Running the body of the handler function against the stream it was given.\<close>

primrec call_fn ::
  "('resp \<Rightarrow> string) \<Rightarrow> ('resp, 'e config_scheme) StreamingBody
     \<Rightarrow> ('resp, 's) ServerStream \<Rightarrow> 'e config_scheme
     \<Rightarrow> Status \<times> ('resp, 's) ServerStream \<times> 'e config_scheme \<times> string list"
where
  "call_fn DebugString (Return status) stream env = (status, stream, env, [])"
| "call_fn DebugString (CallSend msg rest) stream env =
     (case Send DebugString stream msg env of
        (u, stream', records) \<Rightarrow>
          (case call_fn DebugString rest stream' env of
             (status, stream'', env', records') \<Rightarrow>
               (status, stream'', env', records @ records')))"
| "call_fn DebugString (Effect f rest) stream env = call_fn DebugString rest stream (f env)"
| "call_fn DebugString (Read f) stream env = call_fn DebugString (f env) stream env"

record ('ctx, 'req, 'resp, 'env) ServerStreamingGRPCHandler = GRPCHandlerBase +
  fn_f :: "('ctx, 'req, 'resp, 'env) StreamingHandlerFn"

definition ServerStreamingGRPCHandler ::
  "string \<Rightarrow> string \<Rightarrow> ('ctx, 'req, 'resp, 'env) StreamingHandlerFn
     \<Rightarrow> ('ctx, 'req, 'resp, 'env) ServerStreamingGRPCHandler"
where
  "ServerStreamingGRPCHandler sname mname fn =
     GRPCHandlerBase.extend (GRPCHandlerBase sname mname)
       (ServerStreamingGRPCHandler.fields fn)"

definition ServerStreamingGRPCHandler_Run ::
  "('req \<Rightarrow> string) \<Rightarrow> ('resp \<Rightarrow> string)
     \<Rightarrow> ('ctx, 'req, 'resp, 'e config_scheme) ServerStreamingGRPCHandler
     \<Rightarrow> 'ctx \<Rightarrow> 'req \<Rightarrow> ('resp, 's) ServerWriterInterface \<Rightarrow> 'e config_scheme
     \<Rightarrow> ('req, ('resp, 's) ServerWriterInterface, 'e config_scheme) RunResult"
where
  "ServerStreamingGRPCHandler_Run RequestDebugString ResponseDebugString h ctx request writer env =
     (let log1 = (if should_log_requests env
                  then [''Request['' @ service_name h @ ''.'' @ method_name h @ '']\<newline>''
                          @ RequestDebugString request]
                  else []);
          stream = ServerStream writer
      in case call_fn ResponseDebugString
                (ServerStreamingGRPCHandler.fn_f h ctx request) stream env of
           (status, stream', env', sent_log) \<Rightarrow>
             (let log2 = (if should_log_requests env'
                          then [''Response['' @ service_name h @ ''.'' @ method_name h
                                  @ '']\<newline>''
                                  @ (if ok status then ''OK''
                                     else ''Error: '' @ ToString status)]
                          else [])
              in \<lparr>returned = status, request_obj = request, out_obj = writer_f stream',
                  env_obj = env', logged = log1 @ sent_log @ log2\<rparr>))"

subsection \<open>HandlerRegisterer and GetHandler\<close>

text \<open>
  The registry holds handlers of either class behind a pointer to the base class.
\<close>

datatype ('ctx, 'req, 'resp, 'env) GRPCHandler =
    Unary "('ctx, 'req, 'resp, 'env) UnaryGRPCHandler"
  | ServerStreaming "('ctx, 'req, 'resp, 'env) ServerStreamingGRPCHandler"

fun handler_service_name :: "('ctx, 'req, 'resp, 'env) GRPCHandler \<Rightarrow> string" where
  "handler_service_name (Unary h) = service_name h"
| "handler_service_name (ServerStreaming h) = service_name h"

fun handler_method_name :: "('ctx, 'req, 'resp, 'env) GRPCHandler \<Rightarrow> string" where
  "handler_method_name (Unary h) = method_name h"
| "handler_method_name (ServerStreaming h) = method_name h"

type_synonym ('ctx, 'req, 'resp, 'env) registry =
  "string \<times> string \<rightharpoonup> ('ctx, 'req, 'resp, 'env) GRPCHandler"

datatype RegistrationError = DuplicateRegistration string string

text \<open>
  Modelled from the spec: the constructor \<open>HandlerRegisterer(std::unique_ptr<GRPCHandlerBase>)\<close>,
  to which the other two delegate. The header only declares it; its body is not among
  the sources. The spec: "\<open>Register(envelope)\<close>: inserts the envelope under its
  MethodKey. Fails (startup-fatal, not a per-request error) if the key already exists."
\<close>

definition HandlerRegisterer ::
  "('ctx, 'req, 'resp, 'env) GRPCHandler \<Rightarrow> ('ctx, 'req, 'resp, 'env) registry
     \<Rightarrow> RegistrationError + ('ctx, 'req, 'resp, 'env) registry"
where
  "HandlerRegisterer handler reg =
     (let key = (handler_service_name handler, handler_method_name handler)
      in if reg key \<noteq> None
         then Inl (DuplicateRegistration (fst key) (snd key))
         else Inr (reg(key \<mapsto> handler)))"

text \<open>The two constructor templates of the header, which build the handler and delegate.\<close>

definition HandlerRegisterer_unary ::
  "string \<Rightarrow> string \<Rightarrow> ('ctx, 'req, 'resp, 'env) UnaryHandlerFn
     \<Rightarrow> ('ctx, 'req, 'resp, 'env) registry
     \<Rightarrow> RegistrationError + ('ctx, 'req, 'resp, 'env) registry"
where
  "HandlerRegisterer_unary sname mname fn =
     HandlerRegisterer (Unary (UnaryGRPCHandler sname mname fn))"

definition HandlerRegisterer_streaming ::
  "string \<Rightarrow> string \<Rightarrow> ('ctx, 'req, 'resp, 'env) StreamingHandlerFn
     \<Rightarrow> ('ctx, 'req, 'resp, 'env) registry
     \<Rightarrow> RegistrationError + ('ctx, 'req, 'resp, 'env) registry"
where
  "HandlerRegisterer_streaming sname mname fn =
     HandlerRegisterer (ServerStreaming (ServerStreamingGRPCHandler sname mname fn))"

text \<open>
  \<open>GetHandler\<close> is declared with the return type \<open>GRPCHandlerBase*\<close>, and its comment
  in the header says: "Returns nullptr if no such handler could be found." A value of
  the return type is the null pointer or a pointer to a handler.
\<close>

datatype 'h pointer = nullptr | pointer_to 'h

text \<open>
  Modelled from the spec: the body of \<open>GetHandler\<close>, which is not among the sources.
  The spec: "\<open>Lookup(serviceName, methodName)\<close>: pure read; returns the registered
  Envelope", or the absent signal "if no handler was registered for that key"; by the
  declaration in the header that signal is \<open>nullptr\<close>.
\<close>

definition GetHandler ::
  "('ctx, 'req, 'resp, 'env) registry \<Rightarrow> string \<Rightarrow> string
     \<Rightarrow> ('ctx, 'req, 'resp, 'env) GRPCHandler pointer"
where
  "GetHandler reg sname mname =
     (case reg (sname, mname) of None \<Rightarrow> nullptr | Some handler \<Rightarrow> pointer_to handler)"

section \<open>Notions the properties are stated with\<close>

text \<open>
  Of one call of a streaming handler function, started in a given process state: the
  messages it passes to \<open>Send\<close>, in call order; the status it returns; the process
  state it leaves; and whether \<open>config::should_log_requests()\<close> holds at each of its
  calls of \<open>Send\<close>.
\<close>

primrec sent_messages :: "('resp, 'env) StreamingBody \<Rightarrow> 'env \<Rightarrow> 'resp list" where
  "sent_messages (Return status) env = []"
| "sent_messages (CallSend msg rest) env = msg # sent_messages rest env"
| "sent_messages (Effect f rest) env = sent_messages rest (f env)"
| "sent_messages (Read f) env = sent_messages (f env) env"

primrec fn_status :: "('resp, 'env) StreamingBody \<Rightarrow> 'env \<Rightarrow> Status" where
  "fn_status (Return status) env = status"
| "fn_status (CallSend msg rest) env = fn_status rest env"
| "fn_status (Effect f rest) env = fn_status rest (f env)"
| "fn_status (Read f) env = fn_status (f env) env"

primrec fn_env :: "('resp, 'env) StreamingBody \<Rightarrow> 'env \<Rightarrow> 'env" where
  "fn_env (Return status) env = env"
| "fn_env (CallSend msg rest) env = fn_env rest env"
| "fn_env (Effect f rest) env = fn_env rest (f env)"
| "fn_env (Read f) env = fn_env (f env) env"

primrec logging_at_sends :: "('resp, 'e config_scheme) StreamingBody \<Rightarrow> 'e config_scheme \<Rightarrow> bool" where
  "logging_at_sends (Return status) env = True"
| "logging_at_sends (CallSend msg rest) env =
     (should_log_requests env \<and> logging_at_sends rest env)"
| "logging_at_sends (Effect f rest) env = logging_at_sends rest (f env)"
| "logging_at_sends (Read f) env = logging_at_sends (f env) env"

definition is_send_log :: "string \<Rightarrow> bool" where
  "is_send_log r = prefix ''Sending streaming response:\<newline>'' r"

definition write_all ::
  "('msg, 's) ServerWriterInterface \<Rightarrow> 'msg list \<Rightarrow> ('msg, 's) ServerWriterInterface" where
  "write_all = foldl (\<lambda>w msg. snd (Write w msg))"

section \<open>Example handlers and a writer\<close>

text \<open>
  A writer that records what it is given while the consumer is connected, and refuses
  every write once the consumer is gone; a few handler functions; and a process state
  that counts calls.
\<close>

record counted_config = config +
  calls :: nat

definition recording_writer :: "bool \<Rightarrow> (string, string list \<times> bool) ServerWriterInterface" where
  "recording_writer connected =
     \<lparr>Write_impl = (\<lambda>msg (ws, c). if c then (True, (ws @ [msg], c)) else (False, (ws, c))),
      wstate = ([], connected)\<rparr>"

definition GetSession :: "(unit, string, string, config) UnaryHandlerFn" where
  "GetSession ctx request response env = (Status kOk [], ''name: sessions/1'', env)"

definition DeleteSession :: "(unit, string, string, config) UnaryHandlerFn" where
  "DeleteSession ctx request response env =
     (Status kNotFound ''Session not found'', response, env)"

definition ToggleLogging :: "(unit, string, string, config) UnaryHandlerFn" where
  "ToggleLogging ctx request response env =
     (Status kOk [], response, env\<lparr>log_requests := \<not> log_requests env\<rparr>)"

definition CountCalls :: "(unit, string, string, counted_config) UnaryHandlerFn" where
  "CountCalls ctx request response env =
     (Status kOk [], response, env\<lparr>calls := Suc (calls env)\<rparr>)"

definition ExecuteStreamingSql :: "(unit, string, string, config) StreamingHandlerFn" where
  "ExecuteStreamingSql ctx request =
     CallSend ''row 1'' (CallSend ''row 2'' (Return (Status kOk [])))"

definition BatchWrite :: "(unit, string, string, config) StreamingHandlerFn" where
  "BatchWrite ctx request = Return (Status kInvalidArgument ''no mutations'')"

section \<open>Properties\<close>

subsection \<open>The call of a streaming handler function\<close>

lemma call_fn_status: "fst (call_fn dbg body stream env) = fn_status body env"
  by (induction body arbitrary: stream env) (simp_all add: Send_def split_beta)

lemma call_fn_env: "fst (snd (snd (call_fn dbg body stream env))) = fn_env body env"
  by (induction body arbitrary: stream env) (simp_all add: Send_def split_beta)

lemma call_fn_writer:
  "writer_f (fst (snd (call_fn dbg body stream env))) = write_all (writer_f stream) (sent_messages body env)"
  by (induction body arbitrary: stream env) (simp_all add: Send_def write_all_def split_beta)

lemma call_fn_log_enabled:
  "logging_at_sends body env \<Longrightarrow>
   snd (snd (snd (call_fn dbg body stream env))) =
     map (\<lambda>msg. ''Sending streaming response:\<newline>'' @ dbg msg) (sent_messages body env)"
  by (induction body arbitrary: stream env) (simp_all add: Send_def split_beta)

lemma call_fn_log_length:
  "length (snd (snd (snd (call_fn dbg body stream env)))) \<le> length (sent_messages body env)"
  by (induction body arbitrary: stream env) (simp_all add: Send_def split_beta le_SucI)


lemma is_send_log_Request [simp]: "\<not> is_send_log (''Request['' @ x)"
  by (simp add: is_send_log_def)

lemma is_send_log_Response [simp]: "\<not> is_send_log (''Response['' @ x)"
  by (simp add: is_send_log_def)

lemma is_send_log_R [simp]: "\<not> is_send_log (CHR ''R'' # x)"
  by (simp add: is_send_log_def)

lemma is_send_log_Sending [simp]: "is_send_log (''Sending streaming response:\<newline>'' @ x)"
  by (simp add: is_send_log_def)

subsection \<open>Registration and lookup\<close>

text \<open>
  Claim C1. Once a handler has been registered under a (service name, method name)
  pair, registering any handler under the same pair fails with the duplicate
  registration error, and looking the pair up in the registry still yields the
  handler registered first.
\<close>

theorem duplicate_registration_fails:
  assumes "HandlerRegisterer h1 reg = Inr reg1"
    and "handler_service_name h2 = handler_service_name h1"
    and "handler_method_name h2 = handler_method_name h1"
  shows "HandlerRegisterer h2 reg1 =
           Inl (DuplicateRegistration (handler_service_name h1) (handler_method_name h1))
         \<and> GetHandler reg1 (handler_service_name h1) (handler_method_name h1) = pointer_to h1"
  using assms by (auto simp: HandlerRegisterer_def GetHandler_def Let_def split: if_splits)

theorem duplicate_registration_fails_witness:
  "HandlerRegisterer_unary ''Spanner'' ''GetSession'' GetSession Map.empty
     = Inr [(''Spanner'', ''GetSession'') \<mapsto> Unary (UnaryGRPCHandler ''Spanner'' ''GetSession'' GetSession)]
   \<and> HandlerRegisterer_unary ''Spanner'' ''GetSession'' DeleteSession
       [(''Spanner'', ''GetSession'') \<mapsto> Unary (UnaryGRPCHandler ''Spanner'' ''GetSession'' GetSession)]
     = Inl (DuplicateRegistration ''Spanner'' ''GetSession'')
   \<and> GetHandler [(''Spanner'', ''GetSession'') \<mapsto> Unary (UnaryGRPCHandler ''Spanner'' ''GetSession'' GetSession)]
       ''Spanner'' ''GetSession''
     = pointer_to (Unary (UnaryGRPCHandler ''Spanner'' ''GetSession'' GetSession))"
  using duplicate_registration_fails [of
      "Unary (UnaryGRPCHandler ''Spanner'' ''GetSession'' GetSession)" Map.empty
      "[(''Spanner'', ''GetSession'') \<mapsto> Unary (UnaryGRPCHandler ''Spanner'' ''GetSession'' GetSession)]"
      "Unary (UnaryGRPCHandler ''Spanner'' ''GetSession'' DeleteSession)"]
  by (simp add: HandlerRegisterer_unary_def HandlerRegisterer_def UnaryGRPCHandler_def
      GRPCHandlerBase_def GRPCHandlerBase.extend_def service_name_def method_name_def)

subsection \<open>The stream wrapper\<close>

text \<open>
  Claim C2, as stated, fails: \<open>Send\<close> is declared \<open>void\<close> and drops the value that
  \<open>Write\<close> returns. For a writer whose consumer is gone \<open>Write\<close> reports failure, for
  a connected one success; what \<open>Send\<close> returns and what it logs are the same in both
  cases, so nothing tells its caller of the failure.
\<close>

theorem Send_discards_write_failure_counterexample:
  "fst (Write (recording_writer False) ''row 1'') = False
   \<and> fst (Write (recording_writer True) ''row 1'') = True
   \<and> fst (Send id (ServerStream (recording_writer False)) ''row 1'' \<lparr>log_requests = True\<rparr>)
       = fst (Send id (ServerStream (recording_writer True)) ''row 1'' \<lparr>log_requests = True\<rparr>)
   \<and> snd (snd (Send id (ServerStream (recording_writer False)) ''row 1'' \<lparr>log_requests = True\<rparr>))
       = snd (snd (Send id (ServerStream (recording_writer True)) ''row 1'' \<lparr>log_requests = True\<rparr>))"
  by (simp add: Send_def Write_def recording_writer_def ServerStream_def split_beta)

text \<open>
  Claim C2, amended. For every message, \<open>Send\<close> forwards the message to the writer
  with exactly one \<open>Write\<close>, logs it when verbose logging is enabled, and returns
  nothing: whatever \<open>Write\<close> reports, success or failure, is discarded and not
  reported to the streaming handler.
\<close>

theorem Send_forwards_and_returns_nothing:
  "fst (Send dbg stream msg env) = ()
   \<and> writer_f (fst (snd (Send dbg stream msg env))) = snd (Write (writer_f stream) msg)
   \<and> snd (snd (Send dbg stream msg env)) =
       (if should_log_requests env then [''Sending streaming response:\<newline>'' @ dbg msg] else [])"
  by (simp add: Send_def split_beta)

theorem Send_forwards_and_returns_nothing_witness:
  "wstate (writer_f (fst (snd (Send id (ServerStream (recording_writer False)) ''row 1''
       \<lparr>log_requests = True\<rparr>)))) = ([], False)
   \<and> wstate (writer_f (fst (snd (Send id (ServerStream (recording_writer True)) ''row 1''
       \<lparr>log_requests = True\<rparr>)))) = ([''row 1''], True)"
  using Send_forwards_and_returns_nothing [of id "ServerStream (recording_writer False)"
      "''row 1''" "\<lparr>log_requests = True\<rparr>"]
    Send_forwards_and_returns_nothing [of id "ServerStream (recording_writer True)"
      "''row 1''" "\<lparr>log_requests = True\<rparr>"]
  by (simp add: Write_def recording_writer_def ServerStream_def)

subsection \<open>Lookup of an unregistered method\<close>

text \<open>
  Claim C3, as stated, fails: for a pair that was never registered, \<open>GetHandler\<close>
  returns the null pointer, which the claim excludes.
\<close>

theorem GetHandler_null_counterexample:
  "(Map.empty :: (unit, string, string, config) registry) (''Spanner'', ''Nonexistent'') = None
   \<and> GetHandler (Map.empty :: (unit, string, string, config) registry)
        ''Spanner'' ''Nonexistent'' = nullptr"
  by (simp add: GetHandler_def)

text \<open>
  Claim C3, amended. For every (service name, method name) pair for which no handler
  was registered, \<open>GetHandler\<close> returns \<open>nullptr\<close>: the null pointer is the absent
  signal. It never returns a pointer to a handler for such a pair, and the miss is an
  ordinary return value, not an exception.
\<close>

theorem GetHandler_unregistered:
  assumes "reg (sname, mname) = None"
  shows "GetHandler reg sname mname = nullptr
         \<and> (\<forall>handler. GetHandler reg sname mname \<noteq> pointer_to handler)"
  using assms by (simp add: GetHandler_def)

theorem GetHandler_unregistered_witness:
  "GetHandler [(''Spanner'', ''GetSession'') \<mapsto> Unary (UnaryGRPCHandler ''Spanner'' ''GetSession'' GetSession)]
       ''Spanner'' ''Nonexistent'' = nullptr"
  using GetHandler_unregistered [of
      "[(''Spanner'', ''GetSession'') \<mapsto> Unary (UnaryGRPCHandler ''Spanner'' ''GetSession'' GetSession)]"
      "''Spanner''" "''Nonexistent''"]
  by simp

subsection \<open>The unary handler\<close>

text \<open>
  Claim C4. When verbose logging is enabled (at the query before and at the query
  after the call of the wrapped function), \<open>Run\<close> of a unary handler logs exactly two
  records: first the request record, tagged with service and method name, then the
  response record, whatever status the wrapped function returned.
\<close>

theorem Unary_Run_logging_enabled:
  assumes "UnaryGRPCHandler.fn_f h ctx request response env = (status, response', env')"
    and "should_log_requests env" and "should_log_requests env'"
  shows "logged (UnaryGRPCHandler_Run dq dp h ctx request response env) =
           [''Request['' @ service_name h @ ''.'' @ method_name h @ '']\<newline>'' @ dq request,
            ''Response['' @ service_name h @ ''.'' @ method_name h @ '']\<newline>''
              @ dp response' @ ''\<newline>''
              @ (if ok status then ''OK'' else ''Error: '' @ ToString status)]
         \<and> length (logged (UnaryGRPCHandler_Run dq dp h ctx request response env)) = 2"
  using assms by (simp add: UnaryGRPCHandler_Run_def)

theorem Unary_Run_logging_enabled_witness:
  "should_log_requests \<lparr>log_requests = True\<rparr>
   \<and> logged (UnaryGRPCHandler_Run id id (UnaryGRPCHandler ''Spanner'' ''GetSession'' GetSession)
        () ''name: sessions/1'' [] \<lparr>log_requests = True\<rparr>) =
       [''Request[Spanner.GetSession]\<newline>name: sessions/1'',
        ''Response[Spanner.GetSession]\<newline>name: sessions/1\<newline>OK'']
   \<and> logged (UnaryGRPCHandler_Run id id (UnaryGRPCHandler ''Spanner'' ''DeleteSession'' DeleteSession)
        () ''name: sessions/2'' [] \<lparr>log_requests = True\<rparr>) =
       [''Request[Spanner.DeleteSession]\<newline>name: sessions/2'',
        ''Response[Spanner.DeleteSession]\<newline>\<newline>Error: NOT_FOUND: Session not found'']"
  using Unary_Run_logging_enabled [of "UnaryGRPCHandler ''Spanner'' ''GetSession'' GetSession"
      "()" "''name: sessions/1''" "[]" "\<lparr>log_requests = True\<rparr>" "Status kOk []"
      "''name: sessions/1''" "\<lparr>log_requests = True\<rparr>" id id]
    Unary_Run_logging_enabled [of "UnaryGRPCHandler ''Spanner'' ''DeleteSession'' DeleteSession"
      "()" "''name: sessions/2''" "[]" "\<lparr>log_requests = True\<rparr>"
      "Status kNotFound ''Session not found''" "[]" "\<lparr>log_requests = True\<rparr>" id id]
  by (simp add: UnaryGRPCHandler_def GRPCHandlerBase_def GRPCHandlerBase.extend_def
      UnaryGRPCHandler.fields_def GetSession_def DeleteSession_def should_log_requests_def
      service_name_def method_name_def ok_def ToString_def)

text \<open>
  Claim C5. When verbose logging is disabled (at both queries), \<open>Run\<close> of a unary
  handler logs nothing and returns the status of the wrapped function as it is,
  together with the response and the process state the one call of the function left.
\<close>

theorem Unary_Run_logging_disabled:
  assumes "UnaryGRPCHandler.fn_f h ctx request response env = (status, response', env')"
    and "\<not> should_log_requests env" and "\<not> should_log_requests env'"
  shows "logged (UnaryGRPCHandler_Run dq dp h ctx request response env) = []
         \<and> returned (UnaryGRPCHandler_Run dq dp h ctx request response env) = status
         \<and> out_obj (UnaryGRPCHandler_Run dq dp h ctx request response env) = response'
         \<and> env_obj (UnaryGRPCHandler_Run dq dp h ctx request response env) = env'"
  using assms by (simp add: UnaryGRPCHandler_Run_def)

theorem Unary_Run_logging_disabled_witness:
  "\<not> should_log_requests \<lparr>log_requests = False\<rparr>
   \<and> logged (UnaryGRPCHandler_Run id id (UnaryGRPCHandler ''Spanner'' ''DeleteSession'' DeleteSession)
        () ''name: sessions/2'' [] \<lparr>log_requests = False\<rparr>) = []
   \<and> returned (UnaryGRPCHandler_Run id id (UnaryGRPCHandler ''Spanner'' ''DeleteSession'' DeleteSession)
        () ''name: sessions/2'' [] \<lparr>log_requests = False\<rparr>) = Status kNotFound ''Session not found''"
  using Unary_Run_logging_disabled [of "UnaryGRPCHandler ''Spanner'' ''DeleteSession'' DeleteSession"
      "()" "''name: sessions/2''" "[]" "\<lparr>log_requests = False\<rparr>"
      "Status kNotFound ''Session not found''" "[]" "\<lparr>log_requests = False\<rparr>" id id]
  by (simp add: UnaryGRPCHandler_def GRPCHandlerBase.extend_def
      UnaryGRPCHandler.fields_def DeleteSession_def should_log_requests_def)

subsection \<open>The streaming handler\<close>

text \<open>
  Claim C6. When verbose logging is enabled at every query of a streaming call (before
  the call of the wrapped function, at each \<open>Send\<close>, and after the function returns),
  and the function passes the messages \<open>msgs\<close> to \<open>Send\<close>: the writer has received
  exactly \<open>msgs\<close>, in that order, by one \<open>Write\<close> each; and the log is the request
  record, then one send record per message in the same order, then the completion
  record.
\<close>

theorem Streaming_Run_logging_enabled:
  assumes "should_log_requests env"
    and "logging_at_sends (ServerStreamingGRPCHandler.fn_f h ctx request) env"
    and "should_log_requests (fn_env (ServerStreamingGRPCHandler.fn_f h ctx request) env)"
    and "sent_messages (ServerStreamingGRPCHandler.fn_f h ctx request) env = msgs"
    and "fn_status (ServerStreamingGRPCHandler.fn_f h ctx request) env = status"
  shows "out_obj (ServerStreamingGRPCHandler_Run dq dp h ctx request writer env)
           = write_all writer msgs
         \<and> logged (ServerStreamingGRPCHandler_Run dq dp h ctx request writer env) =
             [''Request['' @ service_name h @ ''.'' @ method_name h @ '']\<newline>'' @ dq request]
             @ map (\<lambda>msg. ''Sending streaming response:\<newline>'' @ dp msg) msgs
             @ [''Response['' @ service_name h @ ''.'' @ method_name h @ '']\<newline>''
                  @ (if ok status then ''OK'' else ''Error: '' @ ToString status)]
         \<and> filter is_send_log (logged (ServerStreamingGRPCHandler_Run dq dp h ctx request writer env))
             = map (\<lambda>msg. ''Sending streaming response:\<newline>'' @ dp msg) msgs
         \<and> length (filter is_send_log
               (logged (ServerStreamingGRPCHandler_Run dq dp h ctx request writer env)))
             = length msgs"
proof -
  let ?body = "ServerStreamingGRPCHandler.fn_f h ctx request"
  let ?c = "call_fn dp ?body (ServerStream writer) env"
  have st: "fst ?c = status"
    using assms(5) by (simp add: call_fn_status)
  have en: "should_log_requests (fst (snd (snd ?c)))"
    using assms(3) by (simp add: call_fn_env)
  have wr: "writer_f (fst (snd ?c)) = write_all writer msgs"
    using assms(4) by (simp add: call_fn_writer ServerStream_def)
  have lg: "snd (snd (snd ?c)) = map (\<lambda>msg. ''Sending streaming response:\<newline>'' @ dp msg) msgs"
    using assms(2,4) call_fn_log_enabled [of ?body env dp "ServerStream writer"] by simp
  have run: "logged (ServerStreamingGRPCHandler_Run dq dp h ctx request writer env) =
      [''Request['' @ service_name h @ ''.'' @ method_name h @ '']\<newline>'' @ dq request]
      @ map (\<lambda>msg. ''Sending streaming response:\<newline>'' @ dp msg) msgs
      @ [''Response['' @ service_name h @ ''.'' @ method_name h @ '']\<newline>''
           @ (if ok status then ''OK'' else ''Error: '' @ ToString status)]"
    using assms(1) st en lg by (simp add: ServerStreamingGRPCHandler_Run_def split_beta Let_def)
  have out: "out_obj (ServerStreamingGRPCHandler_Run dq dp h ctx request writer env)
      = write_all writer msgs"
    using wr by (simp add: ServerStreamingGRPCHandler_Run_def split_beta Let_def)
  have flt: "filter is_send_log (logged (ServerStreamingGRPCHandler_Run dq dp h ctx request writer env))
      = map (\<lambda>msg. ''Sending streaming response:\<newline>'' @ dp msg) msgs"
    unfolding run by (simp add: filter_map comp_def del: append.simps)
  show ?thesis
    using out run flt by simp
qed


theorem Streaming_Run_logging_enabled_witness:
  "should_log_requests \<lparr>log_requests = True\<rparr>
   \<and> wstate (out_obj (ServerStreamingGRPCHandler_Run id id
        (ServerStreamingGRPCHandler ''Spanner'' ''ExecuteStreamingSql'' ExecuteStreamingSql)
        () ''SELECT 1'' (recording_writer True) \<lparr>log_requests = True\<rparr>))
       = ([''row 1'', ''row 2''], True)
   \<and> logged (ServerStreamingGRPCHandler_Run id id
        (ServerStreamingGRPCHandler ''Spanner'' ''ExecuteStreamingSql'' ExecuteStreamingSql)
        () ''SELECT 1'' (recording_writer True) \<lparr>log_requests = True\<rparr>)
       = [''Request[Spanner.ExecuteStreamingSql]\<newline>SELECT 1'',
          ''Sending streaming response:\<newline>row 1'',
          ''Sending streaming response:\<newline>row 2'',
          ''Response[Spanner.ExecuteStreamingSql]\<newline>OK'']"
  using Streaming_Run_logging_enabled [of "\<lparr>log_requests = True\<rparr>"
      "ServerStreamingGRPCHandler ''Spanner'' ''ExecuteStreamingSql'' ExecuteStreamingSql"
      "()" "''SELECT 1''" "[''row 1'', ''row 2'']" "Status kOk []" id id "recording_writer True"]
  by (simp add: ServerStreamingGRPCHandler_def GRPCHandlerBase_def GRPCHandlerBase.extend_def
      ServerStreamingGRPCHandler.fields_def ExecuteStreamingSql_def should_log_requests_def
      service_name_def method_name_def ok_def write_all_def Write_def recording_writer_def)

text \<open>
  Claim C7. When the wrapped streaming function sends no message and returns a status
  that is not OK, \<open>Run\<close> returns that status, the log holds no send record, and the
  writer is untouched.
\<close>

theorem Streaming_Run_failure_without_messages:
  assumes "sent_messages (ServerStreamingGRPCHandler.fn_f h ctx request) env = []"
    and "fn_status (ServerStreamingGRPCHandler.fn_f h ctx request) env = status"
    and "\<not> ok status"
  shows "returned (ServerStreamingGRPCHandler_Run dq dp h ctx request writer env) = status
         \<and> \<not> ok (returned (ServerStreamingGRPCHandler_Run dq dp h ctx request writer env))
         \<and> filter is_send_log
             (logged (ServerStreamingGRPCHandler_Run dq dp h ctx request writer env)) = []
         \<and> out_obj (ServerStreamingGRPCHandler_Run dq dp h ctx request writer env) = writer"
proof -
  let ?body = "ServerStreamingGRPCHandler.fn_f h ctx request"
  let ?c = "call_fn dp ?body (ServerStream writer) env"
  have st: "fst ?c = status"
    using assms(2) by (simp add: call_fn_status)
  have wr: "writer_f (fst (snd ?c)) = writer"
    using assms(1) by (simp add: call_fn_writer ServerStream_def write_all_def)
  have "length (snd (snd (snd ?c))) \<le> length (sent_messages ?body env)"
    by (rule call_fn_log_length)
  then have lg: "snd (snd (snd ?c)) = []"
    using assms(1) by simp
  show ?thesis
    using st wr lg assms(3)
    by (simp add: ServerStreamingGRPCHandler_Run_def split_beta Let_def)
qed

theorem Streaming_Run_failure_without_messages_witness:
  "\<not> ok (Status kInvalidArgument ''no mutations'')
   \<and> returned (ServerStreamingGRPCHandler_Run id id
        (ServerStreamingGRPCHandler ''Spanner'' ''BatchWrite'' BatchWrite)
        () ''batch'' (recording_writer True) \<lparr>log_requests = True\<rparr>)
       = Status kInvalidArgument ''no mutations''
   \<and> logged (ServerStreamingGRPCHandler_Run id id
        (ServerStreamingGRPCHandler ''Spanner'' ''BatchWrite'' BatchWrite)
        () ''batch'' (recording_writer True) \<lparr>log_requests = True\<rparr>)
       = [''Request[Spanner.BatchWrite]\<newline>batch'',
          ''Response[Spanner.BatchWrite]\<newline>Error: INVALID_ARGUMENT: no mutations'']"
  using Streaming_Run_failure_without_messages [of
      "ServerStreamingGRPCHandler ''Spanner'' ''BatchWrite'' BatchWrite"
      "()" "''batch''" "\<lparr>log_requests = True\<rparr>" "Status kInvalidArgument ''no mutations''"
      id id "recording_writer True"]
  by (simp add: ServerStreamingGRPCHandler_Run_def ServerStreamingGRPCHandler_def
      GRPCHandlerBase_def GRPCHandlerBase.extend_def
      ServerStreamingGRPCHandler.fields_def BatchWrite_def should_log_requests_def
      service_name_def method_name_def ok_def ToString_def Let_def)

subsection \<open>Frame and logging queries of the unary handler\<close>

text \<open>
  Claim C8. \<open>Run\<close> of a unary handler leaves the request as it was; the status it
  returns, the response and the process state it leaves are those of one call of the
  wrapped function on the arguments of \<open>Run\<close>; and it logs at most two records,
  whatever the logging configuration.
\<close>

theorem Unary_Run_frame:
  "request_obj (UnaryGRPCHandler_Run dq dp h ctx request response env) = request
   \<and> (returned (UnaryGRPCHandler_Run dq dp h ctx request response env),
      out_obj (UnaryGRPCHandler_Run dq dp h ctx request response env),
      env_obj (UnaryGRPCHandler_Run dq dp h ctx request response env))
       = UnaryGRPCHandler.fn_f h ctx request response env
   \<and> length (logged (UnaryGRPCHandler_Run dq dp h ctx request response env)) \<le> 2"
  by (simp add: UnaryGRPCHandler_Run_def split_beta)

theorem Unary_Run_frame_witness:
  "calls (env_obj (UnaryGRPCHandler_Run id id (UnaryGRPCHandler ''Spanner'' ''Commit'' CountCalls)
        () ''commit'' [] \<lparr>log_requests = True, calls = 0\<rparr>)) = 1
   \<and> request_obj (UnaryGRPCHandler_Run id id (UnaryGRPCHandler ''Spanner'' ''Commit'' CountCalls)
        () ''commit'' [] \<lparr>log_requests = True, calls = 0\<rparr>) = ''commit''
   \<and> length (logged (UnaryGRPCHandler_Run id id (UnaryGRPCHandler ''Spanner'' ''Commit'' CountCalls)
        () ''commit'' [] \<lparr>log_requests = True, calls = 0\<rparr>)) = 2"
  using Unary_Run_frame [of id id "UnaryGRPCHandler ''Spanner'' ''Commit'' CountCalls"
      "()" "''commit''" "[]" "\<lparr>log_requests = True, calls = 0\<rparr>"]
  by (simp add: UnaryGRPCHandler_Run_def UnaryGRPCHandler_def GRPCHandlerBase.extend_def
      UnaryGRPCHandler.fields_def CountCalls_def should_log_requests_def)

text \<open>
  Claim C9. \<open>Run\<close> of a unary handler queries the logging predicate twice: the request
  record is logged iff it holds in the state before the call of the wrapped function,
  the response record iff it holds in the state the function left. If the two
  answers differ exactly one record is logged; the number of records is zero or two
  exactly when the answers agree.
\<close>

theorem Unary_Run_flag_queried_twice:
  assumes "UnaryGRPCHandler.fn_f h ctx request response env = (status, response', env')"
  shows "logged (UnaryGRPCHandler_Run dq dp h ctx request response env) =
           (if should_log_requests env
            then [''Request['' @ service_name h @ ''.'' @ method_name h @ '']\<newline>''
                    @ dq request]
            else [])
           @ (if should_log_requests env'
              then [''Response['' @ service_name h @ ''.'' @ method_name h @ '']\<newline>''
                      @ dp response' @ ''\<newline>''
                      @ (if ok status then ''OK'' else ''Error: '' @ ToString status)]
              else [])
         \<and> (should_log_requests env \<noteq> should_log_requests env' \<longrightarrow>
              length (logged (UnaryGRPCHandler_Run dq dp h ctx request response env)) = 1)
         \<and> (length (logged (UnaryGRPCHandler_Run dq dp h ctx request response env)) \<in> {0, 2}
              \<longleftrightarrow> should_log_requests env = should_log_requests env')"
  using assms by (simp add: UnaryGRPCHandler_Run_def)

theorem Unary_Run_flag_queried_twice_witness:
  "should_log_requests \<lparr>log_requests = True\<rparr> \<noteq> should_log_requests \<lparr>log_requests = False\<rparr>
   \<and> logged (UnaryGRPCHandler_Run id id (UnaryGRPCHandler ''Admin'' ''ToggleLogging'' ToggleLogging)
        () ''toggle'' [] \<lparr>log_requests = True\<rparr>) = [''Request[Admin.ToggleLogging]\<newline>toggle'']
   \<and> logged (UnaryGRPCHandler_Run id id (UnaryGRPCHandler ''Admin'' ''ToggleLogging'' ToggleLogging)
        () ''toggle'' [] \<lparr>log_requests = False\<rparr>) = [''Response[Admin.ToggleLogging]\<newline>\<newline>OK'']"
  using Unary_Run_flag_queried_twice [of "UnaryGRPCHandler ''Admin'' ''ToggleLogging'' ToggleLogging"
      "()" "''toggle''" "[]" "\<lparr>log_requests = True\<rparr>" "Status kOk []" "[]"
      "\<lparr>log_requests = False\<rparr>" id id]
    Unary_Run_flag_queried_twice [of "UnaryGRPCHandler ''Admin'' ''ToggleLogging'' ToggleLogging"
      "()" "''toggle''" "[]" "\<lparr>log_requests = False\<rparr>" "Status kOk []" "[]"
      "\<lparr>log_requests = True\<rparr>" id id]
  by (simp add: UnaryGRPCHandler_def GRPCHandlerBase_def GRPCHandlerBase.extend_def
      UnaryGRPCHandler.fields_def ToggleLogging_def should_log_requests_def
      service_name_def method_name_def ok_def)

subsection \<open>The handler base class\<close>

text \<open>
  Claim C10. Constructing a handler succeeds for every pair of strings, the empty
  string included, for the base class and for both subclasses, and the accessors
  \<open>service_name()\<close> and \<open>method_name()\<close> return the strings given to the constructor.
\<close>

theorem GRPCHandlerBase_names:
  "service_name (GRPCHandlerBase s m) = s \<and> method_name (GRPCHandlerBase s m) = m
   \<and> service_name (GRPCHandlerBase [] []) = [] \<and> method_name (GRPCHandlerBase [] []) = []
   \<and> service_name (UnaryGRPCHandler s m ufn) = s \<and> method_name (UnaryGRPCHandler s m ufn) = m
   \<and> service_name (ServerStreamingGRPCHandler s m sfn) = s
   \<and> method_name (ServerStreamingGRPCHandler s m sfn) = m"
  by (simp add: service_name_def method_name_def GRPCHandlerBase_def UnaryGRPCHandler_def
      ServerStreamingGRPCHandler_def GRPCHandlerBase.extend_def)

theorem GRPCHandlerBase_names_witness:
  "service_name (GRPCHandlerBase ''Spanner'' ''GetSession'') = ''Spanner''
   \<and> method_name (GRPCHandlerBase ''Spanner'' ''GetSession'') = ''GetSession''
   \<and> service_name (GRPCHandlerBase [] []) = []
   \<and> method_name (UnaryGRPCHandler [] [] GetSession) = []"
  using GRPCHandlerBase_names [of "''Spanner''" "''GetSession''" GetSession BatchWrite]
    GRPCHandlerBase_names [of "[]" "[]" GetSession BatchWrite]
  by simp

end
